theory Spec2Isabelle
  imports Main "HOL-Library.Word" "HOL-Library.Sublist" "HOL-Library.Log_Nat"
begin

section \<open>The Bun adapter: foreign-function types (deno-compat-bun.ts)\<close>

text \<open>
  The handles of the host table \<open>FFIType\<close> of \<open>bun:ffi\<close> that the adapter reads. The table
  itself belongs to the host; only the members named in \<open>transformFFIType\<close> are listed.
\<close>

datatype FFIType =
    FFIType_void | FFIType_bool
  | FFIType_u8 | FFIType_i8 | FFIType_u16 | FFIType_i16
  | FFIType_u32 | FFIType_i32 | FFIType_u64 | FFIType_i64
  | FFIType_f32 | FFIType_f64
  | FFIType_ptr | FFIType_function

text \<open>
  A thrown \<open>Error\<close> is the left summand, carrying the message. The \<open>switch\<close> of the source
  is the chain of comparisons below, in the source's order; \<open>usize\<close> and \<open>isize\<close> share the
  64-bit handles, \<open>pointer\<close> and \<open>buffer\<close> share the pointer handle.
\<close>

definition transformFFIType :: "string \<Rightarrow> string + FFIType" where
  "transformFFIType denoType =
     (if denoType = ''void'' then Inr FFIType_void
      else if denoType = ''bool'' then Inr FFIType_bool
      else if denoType = ''u8'' then Inr FFIType_u8
      else if denoType = ''i8'' then Inr FFIType_i8
      else if denoType = ''u16'' then Inr FFIType_u16
      else if denoType = ''i16'' then Inr FFIType_i16
      else if denoType = ''u32'' then Inr FFIType_u32
      else if denoType = ''i32'' then Inr FFIType_i32
      else if denoType = ''u64'' then Inr FFIType_u64
      else if denoType = ''i64'' then Inr FFIType_i64
      else if denoType = ''usize'' then Inr FFIType_u64
      else if denoType = ''isize'' then Inr FFIType_i64
      else if denoType = ''f32'' then Inr FFIType_f32
      else if denoType = ''f64'' then Inr FFIType_f64
      else if denoType = ''pointer'' \<or> denoType = ''buffer'' then Inr FFIType_ptr
      else if denoType = ''function'' then Inr FFIType_function
      else Inl (''FFI type not supported: '' @ denoType))"

text \<open>The fixed enumeration of tags of the specification.\<close>

definition ffi_tags :: "string list" where
  "ffi_tags = [''void'', ''bool'', ''u8'', ''i8'', ''u16'', ''i16'', ''u32'', ''i32'',
               ''u64'', ''i64'', ''usize'', ''isize'', ''f32'', ''f64'',
               ''pointer'', ''buffer'', ''function'']"

subsection \<open>dlopen\<close>

text \<open>
  One entry of the \<open>symbols\<close> argument. \<open>type_key\<close> is the value under the key \<open>type\<close>
  when the entry has that key (the test \<open>"type" in symbol\<close>); \<open>parameters\<close> and \<open>result\<close> are
  the portable descriptor the adapter reads otherwise. The \<open>symbols\<close> object is the list of
  its entries in the order \<open>for ... in\<close> visits them, with distinct names.
\<close>

record symbol_def =
  type_key :: "string option"
  parameters :: "string list"
  result :: string

record bun_symbol =
  args :: "FFIType list"
  returns :: FFIType

type_synonym bun_symbols = "(string \<times> bun_symbol) list"

text \<open>\<open>symbol.parameters.map(type => transformFFIType(type))\<close>: the first tag that throws ends the map.\<close>

fun transform_parameters :: "string list \<Rightarrow> string + FFIType list" where
  "transform_parameters [] = Inr []"
| "transform_parameters (t # ts) =
     (case transformFFIType t of
        Inl e \<Rightarrow> Inl e
      | Inr h \<Rightarrow> (case transform_parameters ts of Inl e \<Rightarrow> Inl e | Inr hs \<Rightarrow> Inr (h # hs)))"

text \<open>
  The loop of \<open>dlopen\<close> over the entries, with \<open>bunSymbols\<close> as the accumulator. In the
  object literal \<open>args\<close> is evaluated before \<open>returns\<close>.
\<close>

fun build_bunSymbols :: "bun_symbols \<Rightarrow> (string \<times> symbol_def) list \<Rightarrow> string + bun_symbols" where
  "build_bunSymbols bunSymbols [] = Inr bunSymbols"
| "build_bunSymbols bunSymbols ((name, symbol) # rest) =
     (if type_key symbol \<noteq> None then Inl ''Symbol type notation not supported''
      else case transform_parameters (parameters symbol) of
        Inl e \<Rightarrow> Inl e
      | Inr as \<Rightarrow>
          (case transformFFIType (result symbol) of
             Inl e \<Rightarrow> Inl e
           | Inr r \<Rightarrow> build_bunSymbols (bunSymbols @ [(name, \<lparr>args = as, returns = r\<rparr>)]) rest))"

text \<open>
  The host's \<open>dlopen\<close> of \<open>bun:ffi\<close> is a parameter: it returns a library handle of some
  type \<open>'lib\<close> or throws. A run of the adapter's \<open>dlopen\<close> yields its outcome together with
  the calls it made to the host.
\<close>

type_synonym 'lib host_dlopen = "string \<Rightarrow> bun_symbols \<Rightarrow> string + 'lib"

record 'lib dlopen_run =
  outcome :: "string + 'lib"
  host_calls :: "(string \<times> bun_symbols) list"

definition dlopen :: "'lib host_dlopen \<Rightarrow> string \<Rightarrow> (string \<times> symbol_def) list \<Rightarrow> 'lib dlopen_run" where
  "dlopen host_open path symbols =
     (case build_bunSymbols [] symbols of
        Inl e \<Rightarrow> \<lparr>outcome = Inl e, host_calls = []\<rparr>
      | Inr bunSymbols \<Rightarrow>
          \<lparr>outcome = host_open path bunSymbols, host_calls = [(path, bunSymbols)]\<rparr>)"

text \<open>What it means for one entry of the binding table to be the translation of one entry of \<open>symbols\<close>.\<close>

definition translates :: "string \<times> symbol_def \<Rightarrow> string \<times> bun_symbol \<Rightarrow> bool" where
  "translates entry bound =
     (fst bound = fst entry \<and>
      map transformFFIType (parameters (snd entry)) = map Inr (args (snd bound)) \<and>
      transformFFIType (result (snd entry)) = Inr (returns (snd bound)))"

definition has_type_key :: "(string \<times> symbol_def) list \<Rightarrow> bool" where
  "has_type_key symbols = list_ex (\<lambda>entry. type_key (snd entry) \<noteq> None) symbols"

definition tags_of :: "(string \<times> symbol_def) list \<Rightarrow> string list" where
  "tags_of symbols = concat (map (\<lambda>entry. parameters (snd entry) @ [result (snd entry)]) symbols)"

subsection \<open>UnsafePointer\<close>

text \<open>
  The numeric values an address can be given as: a host number whose value is an integer
  (\<open>JSNumber x\<close> stands for the double of value \<open>x\<close>), the two infinities, and a wide
  integer (\<open>JSBigInt\<close>). \<open>NaN\<close> and fractions are not addresses and are left out.
\<close>

datatype js_value = JSNumber int | PosInfinity | NegInfinity | JSBigInt int

text \<open>
  \<open>Number(value)\<close> on a wide integer is the nearest double, ties to the even significand:
  a double keeps 53 significant bits, and magnitudes from \<open>2 ^ 1024\<close> on are infinite.
\<close>

definition Number_of_BigInt :: "int \<Rightarrow> js_value" where
  "Number_of_BigInt n =
     (let a = \<bar>n\<bar>;
          e = nat (bitlen a - 53);
          q = a div 2 ^ e;
          r = a mod 2 ^ e;
          q' = (if 2 * r > 2 ^ e \<or> (2 * r = 2 ^ e \<and> odd q) then q + 1 else q);
          m = q' * 2 ^ e
      in if m \<ge> 2 ^ 1024 then (if n < 0 then NegInfinity else PosInfinity)
         else JSNumber (sgn n * m))"

fun Number :: "js_value \<Rightarrow> js_value" where
  "Number (JSBigInt n) = Number_of_BigInt n"
| "Number v = v"

definition UnsafePointer_equals :: "js_value \<Rightarrow> js_value \<Rightarrow> bool" where
  "UnsafePointer_equals a b = (a = b)"

definition UnsafePointer_create :: "js_value \<Rightarrow> js_value" where
  "UnsafePointer_create v = Number v"

definition UnsafePointer_value :: "js_value \<Rightarrow> js_value" where
  "UnsafePointer_value pointer = pointer"

section \<open>Installation on the global object\<close>

text \<open>
  \<open>globalThis\<close> as a map from names to values; \<open>typeof Deno === "undefined"\<close> is the name
  having no value. The two adapter classes are values of their own, any other value is
  \<open>Foreign\<close>.
\<close>

datatype global_value = DenoCompat | BunDenoCompat | Foreign string

type_synonym globals = "string \<rightharpoonup> global_value"

text \<open>The body of the module deno-compat-node.ts.\<close>

definition load_node :: "globals \<Rightarrow> globals" where
  "load_node g = (if g ''Deno'' = None then g(''Deno'' \<mapsto> DenoCompat) else g)"

text \<open>
  The body of the module deno-compat-bun.ts: its import runs the Node module first, then
  the test of \<open>navigator.userAgent\<close> (a \<open>ReferenceError\<close> where the host has no
  \<open>navigator\<close>), then the assignment. The result is the global object and the error
  thrown, if any.
\<close>

definition load_bun :: "string option \<Rightarrow> globals \<Rightarrow> globals \<times> string option" where
  "load_bun userAgent g =
     (let g1 = load_node g in
      case userAgent of
        None \<Rightarrow> (g1, Some ''ReferenceError: navigator is not defined'')
      | Some ua \<Rightarrow>
          (if prefix ''Bun'' ua then g1(''Deno'' \<mapsto> BunDenoCompat) else g1, None))"

section \<open>The process command adapter (deno-compat-node.ts)\<close>

subsection \<open>Values\<close>

type_synonym byte = "8 word"

text \<open>
  A promise, by the state it settles in: \<open>Pending\<close> is a promise that never settles. A
  rejection carries the error.
\<close>

datatype 'a promise = Pending | Resolved 'a | Rejected string

text \<open>
  \<open>Promise.all\<close> of two promises: resolved with both values when both resolve, rejected
  when one rejects, pending otherwise. (Of two rejections JavaScript keeps the earlier one;
  the first argument below is the status promise, which never rejects.)
\<close>

fun Promise_all :: "'a promise \<Rightarrow> 'b promise \<Rightarrow> ('a \<times> 'b) promise" where
  "Promise_all (Rejected e) _ = Rejected e"
| "Promise_all _ (Rejected e) = Rejected e"
| "Promise_all (Resolved x) (Resolved y) = Resolved (x, y)"
| "Promise_all _ _ = Pending"

record CommandStatus =
  success :: bool
  code :: int
  signal :: "string option"

record CommandOutput = CommandStatus +
  stdout :: "byte list"
  stderr :: "byte list"

text \<open>
  The options object of the constructor. Every key may be absent. A stdio mode is the
  string the caller wrote, whatever it is.
\<close>

record command_options =
  opt_args :: "string list option"
  opt_cwd :: "string option"
  opt_env :: "(string \<rightharpoonup> string) option"
  opt_stdin :: "string option"
  opt_stdout :: "string option"
  opt_stderr :: "string option"

record Command =
  cmd :: string
  options :: command_options

text \<open>The empty options object \<open>{}\<close>, and the constructor with its \<open>options || {}\<close>.\<close>

definition no_options :: command_options where
  "no_options = \<lparr>opt_args = None, opt_cwd = None, opt_env = None,
                  opt_stdin = None, opt_stdout = None, opt_stderr = None\<rparr>"

definition new_Command :: "string \<Rightarrow> command_options option \<Rightarrow> Command" where
  "new_Command command opts =
     \<lparr>cmd = command, options = (case opts of None \<Rightarrow> no_options | Some o' \<Rightarrow> o')\<rparr>"

subsection \<open>The options passed to the host\<close>

record spawn_options =
  stdio :: "string list"
  so_cwd :: "string option"
  so_env :: "(string \<rightharpoonup> string) option"

text \<open>\<open>x || d\<close> for an optional string \<open>x\<close>: absent and the empty string are falsy.\<close>

definition or_else :: "string option \<Rightarrow> string \<Rightarrow> string" where
  "or_else x d = (case x of None \<Rightarrow> d | Some s \<Rightarrow> if s = [] then d else s)"

text \<open>
  The first part of \<open>spawn\<close>: the three stdio slots, the working directory when the option
  is a non-empty string, and the environment when the option is present, as the spread
  \<open>{ ...process.env, ...this.options.env }\<close> (the later key wins).
\<close>

definition spawnOptions_of :: "(string \<rightharpoonup> string) \<Rightarrow> command_options \<Rightarrow> spawn_options" where
  "spawnOptions_of process_env opts =
     \<lparr>stdio =
        [if opt_stdin opts = Some ''piped'' then ''pipe''
         else or_else (opt_stdin opts) ''inherit'',
         if opt_stdout opts = Some ''piped'' then ''pipe''
         else if opt_stdout opts = Some ''null'' then ''ignore''
         else or_else (opt_stdout opts) ''inherit'',
         if opt_stderr opts = Some ''piped'' then ''pipe''
         else if opt_stderr opts = Some ''null'' then ''ignore''
         else or_else (opt_stderr opts) ''inherit''],
      so_cwd = (case opt_cwd opts of None \<Rightarrow> None | Some d \<Rightarrow> if d = [] then None else Some d),
      so_env = (case opt_env opts of None \<Rightarrow> None | Some overrides \<Rightarrow> Some (process_env ++ overrides))\<rparr>"

subsection \<open>The host's child process\<close>

text \<open>
  What the adapter observes of a child: a readable stream is the chunks it delivers and
  how it finishes (it ends, it fails, or it stays open for ever); the child's events are
  listed in the order the host emits them.
\<close>

datatype stream_end = StreamEnd | StreamError string | StreamOpen

record readable =
  chunks :: "byte list list"
  finish :: stream_end

datatype child_event = ExitEvent "int option" "string option" | ErrorEvent string | CloseEvent

record child_process =
  child_stdin :: "nat option"
  child_stdout :: "readable option"
  child_stderr :: "readable option"
  child_events :: "child_event list"

text \<open>
  The host: the environment of the current process and \<open>spawn\<close> of \<open>node:child_process\<close>,
  which returns a child or throws.
\<close>

record host =
  process_env :: "string \<rightharpoonup> string"
  nodeSpawn :: "string \<Rightarrow> string list \<Rightarrow> spawn_options \<Rightarrow> string + child_process"

subsection \<open>spawn and output\<close>

text \<open>The listener on \<open>exit\<close>: the status built from the code and the signal the host reports.\<close>

definition on_exit :: "int option \<Rightarrow> string option \<Rightarrow> CommandStatus" where
  "on_exit exit_code exit_signal =
     \<lparr>success = (exit_code = Some 0),
      code = (case exit_code of None \<Rightarrow> 0 | Some c \<Rightarrow> if c = 0 then 0 else c),
      signal = (case exit_signal of None \<Rightarrow> None | Some s \<Rightarrow> if s = [] then None else Some s)\<rparr>"

text \<open>
  The status promise: its executor only registers the listener, so the promise resolves
  at the first \<open>exit\<close> event and is settled by nothing else.
\<close>

fun status_promise :: "child_event list \<Rightarrow> CommandStatus promise" where
  "status_promise [] = Pending"
| "status_promise (ExitEvent exit_code exit_signal # _) = Resolved (on_exit exit_code exit_signal)"
| "status_promise (_ # events) = status_promise events"

text \<open>
  The closure \<open>output\<close>: with no stdout handle the list of chunks stays empty; otherwise
  \<open>for await\<close> collects every chunk until the stream ends, and throws where it fails.
\<close>

definition output_promise :: "readable option \<Rightarrow> byte list promise" where
  "output_promise child_out =
     (case child_out of
        None \<Rightarrow> Resolved (concat [])
      | Some stream \<Rightarrow>
          (case finish stream of
             StreamEnd \<Rightarrow> Resolved (concat (chunks stream))
           | StreamError e \<Rightarrow> Rejected e
           | StreamOpen \<Rightarrow> Pending))"

datatype StdinWrapper = StdinWrapper nat

record SpawnedProcess =
  sp_stdin :: "StdinWrapper option"
  sp_stdout :: "readable option"
  sp_stderr :: "readable option"
  status :: "CommandStatus promise"
  sp_output :: "byte list promise"

text \<open>
  \<open>spawn\<close>: an error thrown by the host's \<open>spawn\<close> is not caught, so it leaves the method
  before the result object is built.
\<close>

definition spawn :: "host \<Rightarrow> Command \<Rightarrow> string + SpawnedProcess" where
  "spawn h c =
     (let args = (case opt_args (options c) of None \<Rightarrow> [] | Some a \<Rightarrow> a);
          spawnOptions = spawnOptions_of (process_env h) (options c)
      in case nodeSpawn h (cmd c) args spawnOptions of
           Inl e \<Rightarrow> Inl e
         | Inr child \<Rightarrow>
             Inr \<lparr>sp_stdin = map_option StdinWrapper (child_stdin child),
                  sp_stdout = child_stdout child,
                  sp_stderr = child_stderr child,
                  status = status_promise (child_events child),
                  sp_output = output_promise (child_stdout child)\<rparr>)"

text \<open>
  The method \<open>output\<close> of \<open>Command\<close>, an async function: an error thrown by \<open>spawn\<close> rejects
  its promise.
\<close>

definition Command_output :: "host \<Rightarrow> Command \<Rightarrow> CommandOutput promise" where
  "Command_output h c =
     (case spawn h c of
        Inl e \<Rightarrow> Rejected e
      | Inr process \<Rightarrow>
          (case Promise_all (status process) (sp_output process) of
             Pending \<Rightarrow> Pending
           | Rejected e \<Rightarrow> Rejected e
           | Resolved (st, out) \<Rightarrow>
               Resolved \<lparr>success = success st, code = code st, signal = signal st,
                         stdout = out, stderr = []\<rparr>))"

subsection \<open>Example hosts\<close>

text \<open>
  A host that reports a failed launch the way Node.js documents it: \<open>spawn\<close> returns a
  child without handles, which later emits \<open>error\<close>.
\<close>

definition deferred_failure_host :: host where
  "deferred_failure_host =
     \<lparr>process_env = [''PATH'' \<mapsto> ''/usr/bin''],
      nodeSpawn = (\<lambda>command args opts.
        Inr \<lparr>child_stdin = None, child_stdout = None, child_stderr = None,
             child_events = [ErrorEvent (''spawn '' @ command @ '' ENOENT'')]\<rparr>)\<rparr>"

text \<open>A host whose \<open>spawn\<close> throws at once.\<close>

definition throwing_host :: host where
  "throwing_host =
     \<lparr>process_env = [''PATH'' \<mapsto> ''/usr/bin''],
      nodeSpawn = (\<lambda>command args opts. Inl (''spawn '' @ command @ '' ENOENT''))\<rparr>"

text \<open>
  A host whose children write \<open>hi\<close> and a newline in two chunks and exit with code 0; a
  handle exists for the slots configured as \<open>pipe\<close>.
\<close>

definition echo_host :: host where
  "echo_host =
     \<lparr>process_env = [''PATH'' \<mapsto> ''/usr/bin'', ''HOME'' \<mapsto> ''/root''],
      nodeSpawn = (\<lambda>command args opts.
        Inr \<lparr>child_stdin = (if take 1 (stdio opts) = [''pipe''] then Some 0 else None),
             child_stdout = (if take 1 (drop 1 (stdio opts)) = [''pipe'']
                             then Some \<lparr>chunks = [[104, 105], [10]], finish = StreamEnd\<rparr> else None),
             child_stderr = (if take 1 (drop 2 (stdio opts)) = [''pipe'']
                             then Some \<lparr>chunks = [], finish = StreamEnd\<rparr> else None),
             child_events = [ExitEvent (Some 0) None, CloseEvent]\<rparr>)\<rparr>"

section \<open>Properties of the foreign-function adapter\<close>

subsection \<open>transformFFIType\<close>

lemma transformFFIType_supported:
  "tag \<in> set ffi_tags \<Longrightarrow> \<exists>h. transformFFIType tag = Inr h"
  unfolding ffi_tags_def transformFFIType_def by auto

lemma transformFFIType_unsupported:
  "tag \<notin> set ffi_tags \<Longrightarrow> transformFFIType tag = Inl (''FFI type not supported: '' @ tag)"
  unfolding ffi_tags_def transformFFIType_def by simp

lemma transformFFIType_Inl:
  "transformFFIType t = Inl e \<Longrightarrow> t \<notin> set ffi_tags \<and> e = ''FFI type not supported: '' @ t"
  using transformFFIType_supported [of t] transformFFIType_unsupported [of t] by auto

lemma transformFFIType_Inr: "transformFFIType t = Inr h \<Longrightarrow> t \<in> set ffi_tags"
  using transformFFIType_unsupported [of t] by auto

text \<open>
  Claim C6. \<open>transformFFIType\<close> is a function of the tag alone. On each of the seventeen
  tags of the enumeration it returns a host handle, and on every other string it throws the
  error whose message is \<open>FFI type not supported: \<close> followed by the tag; no default handle
  is returned.
\<close>

theorem transformFFIType_total:
  "(tag \<in> set ffi_tags \<longrightarrow> (\<exists>h. transformFFIType tag = Inr h)) \<and>
   (tag \<notin> set ffi_tags \<longrightarrow>
      transformFFIType tag = Inl (''FFI type not supported: '' @ tag))"
  using transformFFIType_supported transformFFIType_unsupported by blast

theorem transformFFIType_total_witness:
  "''usize'' \<in> set ffi_tags \<and> (\<exists>h. transformFFIType ''usize'' = Inr h) \<and>
   ''string'' \<notin> set ffi_tags \<and>
   transformFFIType ''string'' = Inl ''FFI type not supported: string''"
  using transformFFIType_total [of "''usize''"] transformFFIType_total [of "''string''"]
  by (simp add: ffi_tags_def)

subsection \<open>dlopen\<close>

lemma transform_parameters_Inr:
  "transform_parameters ts = Inr hs \<Longrightarrow> map transformFFIType ts = map Inr hs"
  by (induction ts arbitrary: hs) (auto split: sum.splits)

lemma transform_parameters_Inl:
  "transform_parameters ts = Inl e \<Longrightarrow>
     \<exists>t \<in> set ts. t \<notin> set ffi_tags \<and> e = ''FFI type not supported: '' @ t"
proof (induction ts)
  case Nil
  then show ?case by simp
next
  case (Cons t ts)
  show ?case
  proof (cases "transformFFIType t")
    case (Inl e')
    with Cons.prems have "e' = e" by simp
    with Inl transformFFIType_Inl [of t e] show ?thesis by auto
  next
    case (Inr h)
    with Cons.prems have "transform_parameters ts = Inl e"
      by (auto split: sum.splits)
    with Cons.IH show ?thesis by auto
  qed
qed

text \<open>When the loop finishes, no entry had the key \<open>type\<close> and the table grew by one translated entry for each entry of \<open>symbols\<close>, in order.\<close>

lemma build_bunSymbols_Inr:
  "build_bunSymbols acc symbols = Inr table \<Longrightarrow>
     \<not> has_type_key symbols \<and>
     (\<exists>bound. table = acc @ bound \<and> list_all2 translates symbols bound)"
proof (induction acc symbols arbitrary: table rule: build_bunSymbols.induct)
  case (1 bunSymbols)
  then show ?case by (simp add: has_type_key_def)
next
  case (2 bunSymbols name symbol rest)
  from "2.prems" have nokey: "type_key symbol = None"
    by (auto split: if_splits)
  with "2.prems" obtain as where as: "transform_parameters (parameters symbol) = Inr as"
    by (auto split: sum.splits)
  with nokey "2.prems" obtain r where r: "transformFFIType (result symbol) = Inr r"
    by (auto split: sum.splits)
  let ?b = "(name, \<lparr>args = as, returns = r\<rparr>)"
  from nokey as r "2.prems"
  have rec: "build_bunSymbols (bunSymbols @ [?b]) rest = Inr table" by simp
  from "2.IH" [OF _ as r rec] nokey
  obtain bound where nk: "\<not> has_type_key rest"
    and tb: "table = (bunSymbols @ [?b]) @ bound" and all: "list_all2 translates rest bound"
    by auto
  have "translates (name, symbol) ?b"
    using transform_parameters_Inr [OF as] r by (simp add: translates_def)
  with all have "list_all2 translates ((name, symbol) # rest) (?b # bound)" by simp
  moreover from tb have "table = bunSymbols @ (?b # bound)" by simp
  moreover from nk nokey have "\<not> has_type_key ((name, symbol) # rest)"
    by (simp add: has_type_key_def)
  ultimately show ?case by blast
qed

text \<open>When the loop throws, the error is one of the two the source constructs.\<close>

lemma build_bunSymbols_Inl:
  "build_bunSymbols acc symbols = Inl e \<Longrightarrow>
     (e = ''Symbol type notation not supported'' \<and> has_type_key symbols) \<or>
     (\<exists>t \<in> set (tags_of symbols). t \<notin> set ffi_tags \<and> e = ''FFI type not supported: '' @ t)"
proof (induction acc symbols rule: build_bunSymbols.induct)
  case (1 bunSymbols)
  then show ?case by simp
next
  case (2 bunSymbols name symbol rest)
  show ?case
  proof (cases "type_key symbol \<noteq> None")
    case True
    with "2.prems" show ?thesis by (simp add: has_type_key_def)
  next
    case nokey: False
    show ?thesis
    proof (cases "transform_parameters (parameters symbol)")
      case (Inl e')
      with nokey "2.prems" have "e' = e" by simp
      with Inl transform_parameters_Inl [of "parameters symbol" e]
      show ?thesis by (auto simp: tags_of_def)
    next
      case as: (Inr as)
      show ?thesis
      proof (cases "transformFFIType (result symbol)")
        case (Inl e')
        with nokey as "2.prems" have "e' = e" by simp
        with Inl transformFFIType_Inl [of "result symbol" e]
        show ?thesis by (auto simp: tags_of_def)
      next
        case r: (Inr r)
        with nokey as "2.prems"
        have "build_bunSymbols (bunSymbols @ [(name, \<lparr>args = as, returns = r\<rparr>)]) rest = Inl e"
          by simp
        from "2.IH" [OF _ as r this] nokey
        show ?thesis by (auto simp: tags_of_def has_type_key_def)
      qed
    qed
  qed
qed

lemma translates_tags:
  "list_all2 translates symbols bound \<Longrightarrow> set (tags_of symbols) \<subseteq> set ffi_tags"
proof (induction symbols bound rule: list_all2_induct)
  case Nil
  then show ?case by (simp add: tags_of_def)
next
  case (Cons entry symbols b bound)
  from Cons.hyps(1) have res: "result (snd entry) \<in> set ffi_tags"
    by (auto simp: translates_def dest: transformFFIType_Inr)
  have par: "t \<in> set ffi_tags" if "t \<in> set (parameters (snd entry))" for t
  proof -
    from Cons.hyps(1)
    have "map transformFFIType (parameters (snd entry)) = map Inr (args (snd b))"
      by (simp add: translates_def)
    then have "transformFFIType t \<in> Inr ` set (args (snd b))"
      using that by (metis image_eqI list.set_map)
    then show ?thesis by (auto dest: transformFFIType_Inr)
  qed
  from Cons.IH res par show ?case by (auto simp: tags_of_def)
qed

text \<open>
  Claim C7. When some entry of \<open>symbols\<close> has the key \<open>type\<close>, \<open>dlopen\<close> throws a "not
  supported" error (the one for the type notation, or the one of \<open>transformFFIType\<close> for an
  unsupported tag met in an earlier entry) and makes no call to the host. When no entry
  has the key and every tag is of the enumeration, the host is called once, with the given
  path and the table that holds, for each entry in order, the images of its parameter tags
  and of its result tag under \<open>transformFFIType\<close>; what the host returns is the outcome,
  unchanged. When no entry has the key and some tag is outside the enumeration, the error
  of \<open>transformFFIType\<close> for such a tag is thrown and the host is not called.
\<close>

theorem dlopen_contract:
  "(has_type_key symbols \<longrightarrow>
      (\<exists>e. outcome (dlopen host_open path symbols) = Inl e \<and>
           (e = ''Symbol type notation not supported'' \<or>
            (\<exists>t \<in> set (tags_of symbols). t \<notin> set ffi_tags \<and> e = ''FFI type not supported: '' @ t))) \<and>
      host_calls (dlopen host_open path symbols) = []) \<and>
   (\<not> has_type_key symbols \<and> set (tags_of symbols) \<subseteq> set ffi_tags \<longrightarrow>
      (\<exists>bound. list_all2 translates symbols bound \<and>
         outcome (dlopen host_open path symbols) = host_open path bound \<and>
         host_calls (dlopen host_open path symbols) = [(path, bound)])) \<and>
   (\<not> has_type_key symbols \<and> \<not> set (tags_of symbols) \<subseteq> set ffi_tags \<longrightarrow>
      (\<exists>t \<in> set (tags_of symbols). t \<notin> set ffi_tags \<and>
         outcome (dlopen host_open path symbols) = Inl (''FFI type not supported: '' @ t)) \<and>
      host_calls (dlopen host_open path symbols) = [])"
proof (cases "build_bunSymbols [] symbols")
  case (Inl e)
  from build_bunSymbols_Inl [OF Inl] Inl show ?thesis
    by (auto simp: dlopen_def)
next
  case (Inr table)
  from build_bunSymbols_Inr [OF Inr]
  obtain bound where "\<not> has_type_key symbols" "table = bound" "list_all2 translates symbols bound"
    by auto
  with Inr translates_tags [of symbols bound] show ?thesis
    by (auto simp: dlopen_def)
qed

theorem dlopen_contract_witness:
  "outcome (dlopen (\<lambda>path table. Inr (path, map fst table)) ''./libexample.so''
      [(''add'', \<lparr>type_key = None, parameters = [''i32'', ''i32''], result = ''i32''\<rparr>),
       (''errno'', \<lparr>type_key = Some ''i32'', parameters = [], result = []\<rparr>)])
     = Inl ''Symbol type notation not supported'' \<and>
   host_calls (dlopen (\<lambda>path table. Inr (path, map fst table)) ''./libexample.so''
      [(''add'', \<lparr>type_key = None, parameters = [''i32'', ''i32''], result = ''i32''\<rparr>),
       (''errno'', \<lparr>type_key = Some ''i32'', parameters = [], result = []\<rparr>)])
     = [] \<and>
   outcome (dlopen (\<lambda>path table. Inr (path, map fst table)) ''./libexample.so''
      [(''add'', \<lparr>type_key = None, parameters = [''i32'', ''i32''], result = ''i32''\<rparr>)])
     = Inr (''./libexample.so'', [''add'']) \<and>
   host_calls (dlopen (\<lambda>path table. Inr (path, map fst table)) ''./libexample.so''
      [(''add'', \<lparr>type_key = None, parameters = [''i32'', ''i32''], result = ''i32''\<rparr>)])
     = [(''./libexample.so'',
         [(''add'', \<lparr>args = [FFIType_i32, FFIType_i32], returns = FFIType_i32\<rparr>)])] \<and>
   outcome (dlopen (\<lambda>path table. Inr (path, map fst table)) ''./libexample.so''
      [(''puts'', \<lparr>type_key = None, parameters = [''string''], result = ''i32''\<rparr>)])
     = Inl ''FFI type not supported: string''"
  using
    dlopen_contract [of
      "[(''add'', \<lparr>type_key = None, parameters = [''i32'', ''i32''], result = ''i32''\<rparr>),
        (''errno'', \<lparr>type_key = Some ''i32'', parameters = [], result = []\<rparr>)]"
      "\<lambda>path table. Inr (path, map fst table)" "''./libexample.so''"]
    dlopen_contract [of
      "[(''add'', \<lparr>type_key = None, parameters = [''i32'', ''i32''], result = ''i32''\<rparr>)]"
      "\<lambda>path table. Inr (path, map fst table)" "''./libexample.so''"]
    dlopen_contract [of
      "[(''puts'', \<lparr>type_key = None, parameters = [''string''], result = ''i32''\<rparr>)]"
      "\<lambda>path table. Inr (path, map fst table)" "''./libexample.so''"]
  by (simp add: dlopen_def transformFFIType_def)

subsection \<open>UnsafePointer\<close>

lemma Number_of_BigInt_bound:
  "Number_of_BigInt 9007199254740992 = JSNumber 9007199254740992"
  "Number_of_BigInt (- 9007199254740992) = JSNumber (- 9007199254740992)"
  by code_simp+

text \<open>A wide integer of magnitude at most \<open>2 ^ 53\<close> is converted exactly.\<close>

lemma Number_of_BigInt_exact:
  assumes "\<bar>n\<bar> \<le> 2 ^ 53"
  shows "Number_of_BigInt n = JSNumber n"
proof (cases "\<bar>n\<bar> < 2 ^ 53")
  case True
  then have "bitlen \<bar>n\<bar> \<le> 53"
    by (simp add: bitlen_le_iff_power)
  then have e: "nat (bitlen \<bar>n\<bar> - 53) = 0" by simp
  have small: "\<not> (2 ^ 1024 \<le> \<bar>n\<bar>)"
  proof -
    have "(2::int) ^ 53 \<le> 2 ^ 1024" by (rule power_increasing) simp_all
    with True show ?thesis by linarith
  qed
  have "sgn n * \<bar>n\<bar> = n" by (simp add: mult_sgn_abs)
  with e small show ?thesis
    by (simp add: Number_of_BigInt_def Let_def)
next
  case False
  with assms have "\<bar>n\<bar> = 9007199254740992" by simp
  then have "n = 9007199254740992 \<or> n = - 9007199254740992" by linarith
  then show ?thesis
    using Number_of_BigInt_bound by auto
qed

text \<open>
  Claim C9, as amended. For addresses given as host numbers, and for addresses given as
  wide integers of magnitude at most \<open>2 ^ 53\<close>, \<open>equals\<close> of two created pointers is true
  exactly when the addresses are equal, and \<open>value\<close> of a created pointer is the address as
  a host number. (Beyond \<open>2 ^ 53\<close> the coercion \<open>Number\<close> in \<open>create\<close> rounds, see the
  counterexample.)
\<close>

theorem pointer_equality:
  "(\<bar>n\<bar> \<le> 2 ^ 53 \<and> \<bar>m\<bar> \<le> 2 ^ 53 \<longrightarrow>
      UnsafePointer_equals (UnsafePointer_create (JSBigInt n)) (UnsafePointer_create (JSBigInt m))
        = (n = m) \<and>
      UnsafePointer_value (UnsafePointer_create (JSBigInt n)) = JSNumber n) \<and>
   UnsafePointer_equals (UnsafePointer_create (JSNumber n)) (UnsafePointer_create (JSNumber m))
     = (n = m) \<and>
   UnsafePointer_value (UnsafePointer_create (JSNumber n)) = JSNumber n"
  by (simp add: UnsafePointer_equals_def UnsafePointer_create_def UnsafePointer_value_def
      Number_of_BigInt_exact)

theorem pointer_equality_witness:
  "UnsafePointer_equals (UnsafePointer_create (JSBigInt 4096)) (UnsafePointer_create (JSBigInt 4096)) \<and>
   \<not> UnsafePointer_equals (UnsafePointer_create (JSBigInt 4096)) (UnsafePointer_create (JSBigInt 4097)) \<and>
   UnsafePointer_value (UnsafePointer_create (JSBigInt 4096)) = JSNumber 4096 \<and>
   \<not> UnsafePointer_equals (UnsafePointer_create (JSNumber 4096)) (UnsafePointer_create (JSNumber 4097))"
  using pointer_equality [of 4096 4096] pointer_equality [of 4096 4097]
  by simp

text \<open>
  Claim C9 as stated fails: the two distinct addresses \<open>2 ^ 53\<close> and \<open>2 ^ 53 + 1\<close>, given
  as wide integers, are created as the same host number, and \<open>equals\<close> is true of them.
\<close>

theorem pointer_equality_counterexample:
  "UnsafePointer_equals (UnsafePointer_create (JSBigInt 9007199254740992))
     (UnsafePointer_create (JSBigInt 9007199254740993))"
  by code_simp

section \<open>Properties of the installation\<close>

text \<open>
  Claim C2, as amended. The Node module binds its adapter under \<open>Deno\<close> when the name has
  no value, and changes nothing when it has one. The Bun module, after running the Node
  module, binds its own adapter under \<open>Deno\<close> whenever the user agent starts with \<open>Bun\<close>,
  whatever was bound there, and adds nothing when the user agent does not start so.
  Neither module touches another name.
\<close>

theorem install_paths:
  "(g ''Deno'' = None \<longrightarrow> load_node g ''Deno'' = Some DenoCompat) \<and>
   (g ''Deno'' \<noteq> None \<longrightarrow> load_node g = g) \<and>
   (prefix ''Bun'' ua \<longrightarrow> fst (load_bun (Some ua) g) ''Deno'' = Some BunDenoCompat) \<and>
   (\<not> prefix ''Bun'' ua \<longrightarrow> fst (load_bun (Some ua) g) = load_node g) \<and>
   (name \<noteq> ''Deno'' \<longrightarrow>
      load_node g name = g name \<and> fst (load_bun (Some ua) g) name = g name)"
  by (simp add: load_bun_def load_node_def)

theorem install_paths_witness:
  "load_node Map.empty ''Deno'' = Some DenoCompat \<and>
   load_node [''Deno'' \<mapsto> Foreign ''native''] = [''Deno'' \<mapsto> Foreign ''native''] \<and>
   fst (load_bun (Some ''Bun/1.1.0'') Map.empty) ''Deno'' = Some BunDenoCompat \<and>
   fst (load_bun (Some ''Node.js/22'') [''Deno'' \<mapsto> Foreign ''native''])
     = load_node [''Deno'' \<mapsto> Foreign ''native''] \<and>
   fst (load_bun (Some ''Bun/1.1.0'') [''Bun'' \<mapsto> Foreign ''bun'']) ''Bun''
     = Some (Foreign ''bun'')"
  using install_paths [of Map.empty "''Bun/1.1.0''" "''Bun''"]
    install_paths [of "[''Deno'' \<mapsto> Foreign ''native'']" "''Node.js/22''" "''Bun''"]
    install_paths [of "[''Bun'' \<mapsto> Foreign ''bun'']" "''Bun/1.1.0''" "''Bun''"]
  by simp

text \<open>
  Claim C2 as stated fails on the Bun path: with \<open>Deno\<close> already bound to a value of the
  host and a user agent starting with \<open>Bun\<close>, loading the Bun module replaces the binding.
\<close>

theorem install_overwrite_counterexample:
  "[''Deno'' \<mapsto> Foreign ''native''] ''Deno'' = Some (Foreign ''native'') \<and>
   fst (load_bun (Some ''Bun/1.1.0'') [''Deno'' \<mapsto> Foreign ''native'']) ''Deno''
     = Some BunDenoCompat"
  by (simp add: load_bun_def load_node_def)

section \<open>Properties of the process command adapter\<close>

subsection \<open>Promises\<close>

lemma status_promise_not_rejected: "status_promise events \<noteq> Rejected e"
  by (induction events rule: status_promise.induct) simp_all

text \<open>A resolved status comes from an \<open>exit\<close> event of the child.\<close>

lemma status_promise_resolved:
  "status_promise events = Resolved st \<Longrightarrow>
     \<exists>exit_code exit_signal. ExitEvent exit_code exit_signal \<in> set events \<and>
        st = on_exit exit_code exit_signal"
  by (induction events rule: status_promise.induct) auto

lemma Promise_all_resolved:
  "Promise_all a b = Resolved (x, y) \<longleftrightarrow> a = Resolved x \<and> b = Resolved y"
  by (cases a; cases b) auto

subsection \<open>Launch failure\<close>

text \<open>
  Claim C1, as amended. \<open>spawn\<close> throws exactly when the host's \<open>spawn\<close> throws, with the
  same error, and then no process object (so no status promise) exists and the promise of
  \<open>output\<close> is rejected with that error. The status promise of a process that \<open>spawn\<close>
  returned is never rejected.
\<close>

theorem spawn_launch_failure:
  "(spawn h c = Inl e) =
     (nodeSpawn h (cmd c) (case opt_args (options c) of None \<Rightarrow> [] | Some a \<Rightarrow> a)
        (spawnOptions_of (process_env h) (options c)) = Inl e) \<and>
   (spawn h c = Inl e \<longrightarrow> Command_output h c = Rejected e) \<and>
   (spawn h c = Inr p \<longrightarrow> status p \<noteq> Rejected e')"
  by (auto simp: spawn_def Command_output_def Let_def status_promise_not_rejected
      split: sum.splits)

theorem spawn_launch_failure_witness:
  "spawn throwing_host (new_Command ''no-such-program'' None)
     = Inl ''spawn no-such-program ENOENT'' \<and>
   Command_output throwing_host (new_Command ''no-such-program'' None)
     = Rejected ''spawn no-such-program ENOENT'' \<and>
   spawn deferred_failure_host (new_Command ''no-such-program'' None) =
     Inr \<lparr>sp_stdin = None, sp_stdout = None, sp_stderr = None,
          status = Pending, sp_output = Resolved []\<rparr> \<and>
   Pending \<noteq> (Rejected ''ENOENT'' :: CommandStatus promise)"
  using spawn_launch_failure [of throwing_host "new_Command ''no-such-program'' None"
      "''spawn no-such-program ENOENT''"]
    spawn_launch_failure [of deferred_failure_host "new_Command ''no-such-program'' None"
      "''spawn no-such-program ENOENT''"
      "\<lparr>sp_stdin = None, sp_stdout = None, sp_stderr = None,
          status = Pending, sp_output = Resolved []\<rparr>" "''ENOENT''"]
  by (simp add: spawn_def throwing_host_def deferred_failure_host_def new_Command_def
      no_options_def output_promise_def)

text \<open>
  Claim C1 as stated fails on a host that reports the failed launch by an \<open>error\<close> event
  of the child it returns: \<open>spawn\<close> returns a process whose status promise exists and
  stays pending.
\<close>

theorem spawn_deferred_failure_counterexample:
  "spawn deferred_failure_host (new_Command ''no-such-program'' None) =
     Inr \<lparr>sp_stdin = None, sp_stdout = None, sp_stderr = None,
          status = Pending, sp_output = Resolved []\<rparr>"
  by (simp add: spawn_def deferred_failure_host_def new_Command_def no_options_def
      output_promise_def)

subsection \<open>The combined output\<close>

text \<open>
  Claim C3. The promise of \<open>output\<close> resolves exactly when \<open>spawn\<close> returned a process
  whose status promise and whose stdout accumulator have both resolved, and it resolves
  with the three fields of the status, the bytes of the accumulator as \<open>stdout\<close> and the
  empty byte sequence as \<open>stderr\<close>, whatever the stdio modes of the command are.
\<close>

theorem output_awaits_both:
  "(Command_output h c = Resolved r) =
     (\<exists>p st out. spawn h c = Inr p \<and> status p = Resolved st \<and> sp_output p = Resolved out \<and>
        r = \<lparr>success = success st, code = code st, signal = signal st,
             stdout = out, stderr = []\<rparr>)"
proof (cases "spawn h c")
  case (Inl e)
  then show ?thesis by (simp add: Command_output_def)
next
  case (Inr p)
  show ?thesis
  proof (cases "Promise_all (status p) (sp_output p)")
    case Pending
    then have "\<not> (\<exists>st out. status p = Resolved st \<and> sp_output p = Resolved out)"
      by auto
    with Inr Pending show ?thesis by (auto simp: Command_output_def)
  next
    case (Rejected e)
    then have "\<not> (\<exists>st out. status p = Resolved st \<and> sp_output p = Resolved out)"
      by auto
    with Inr Rejected show ?thesis by (auto simp: Command_output_def)
  next
    case (Resolved pair)
    obtain st out where pair: "pair = (st, out)" by (cases pair)
    with Resolved have "status p = Resolved st" "sp_output p = Resolved out"
      by (simp_all add: Promise_all_resolved)
    with Inr Resolved pair show ?thesis by (auto simp: Command_output_def)
  qed
qed

theorem output_awaits_both_witness:
  "Command_output echo_host
     (new_Command ''echo''
        (Some (no_options\<lparr>opt_stdout := Some ''piped'', opt_stderr := Some ''piped''\<rparr>)))
   = Resolved \<lparr>success = True, code = 0, signal = None, stdout = [104, 105, 10], stderr = []\<rparr>"
  using output_awaits_both [of echo_host
      "new_Command ''echo''
         (Some (no_options\<lparr>opt_stdout := Some ''piped'', opt_stderr := Some ''piped''\<rparr>))"
      "\<lparr>success = True, code = 0, signal = None, stdout = [104, 105, 10], stderr = []\<rparr>"]
  by (simp add: spawn_def echo_host_def new_Command_def no_options_def spawnOptions_of_def
      or_else_def output_promise_def on_exit_def)

subsection \<open>Stdio modes\<close>

text \<open>What the three slots are for the modes of the reference API, \<open>null\<close> on stdin apart.\<close>

lemma stdio_modes:
  "stdio (spawnOptions_of penv opts) = [a, b, c] \<Longrightarrow>
   (opt_stdin opts = Some ''piped'' \<longrightarrow> a = ''pipe'') \<and>
   (opt_stdin opts = Some ''inherit'' \<or> opt_stdin opts = None \<longrightarrow> a = ''inherit'') \<and>
   (opt_stdout opts = Some ''piped'' \<longrightarrow> b = ''pipe'') \<and>
   (opt_stdout opts = Some ''null'' \<longrightarrow> b = ''ignore'') \<and>
   (opt_stdout opts = Some ''inherit'' \<or> opt_stdout opts = None \<longrightarrow> b = ''inherit'') \<and>
   (opt_stderr opts = Some ''piped'' \<longrightarrow> c = ''pipe'') \<and>
   (opt_stderr opts = Some ''null'' \<longrightarrow> c = ''ignore'') \<and>
   (opt_stderr opts = Some ''inherit'' \<or> opt_stderr opts = None \<longrightarrow> c = ''inherit'')"
  by (auto simp: spawnOptions_of_def or_else_def)

text \<open>
  Claim C4. With the mode \<open>null\<close> on all three streams, the slots of stdout and stderr are
  the host's \<open>ignore\<close>, and the slot of stdin is the string \<open>null\<close> itself, which is not a
  stdio configuration of the host: the expression for stdin lacks the case that the
  expressions for stdout and stderr have.
\<close>

theorem stdin_null_slot:
  "stdio (spawnOptions_of penv
     (no_options\<lparr>opt_stdin := Some ''null'', opt_stdout := Some ''null'',
                  opt_stderr := Some ''null''\<rparr>))
   = [''null'', ''ignore'', ''ignore'']"
  by (simp add: spawnOptions_of_def no_options_def or_else_def)

subsection \<open>Exit status\<close>

text \<open>
  Claim C5. The host reports a termination by an exit code or by a signal name, not both,
  and a signal name is not empty. For such a report the status has \<open>success\<close> true exactly
  when the code is zero and there is no signal; \<open>code\<close> is the reported code, and 0 when
  only a signal is reported; \<open>signal\<close> is the reported signal name, or null when there is
  none; and the status promise resolves with this status at the \<open>exit\<close> event.
\<close>

theorem exit_status_fields:
  assumes "exit_code = None \<or> exit_signal = None" and "exit_signal \<noteq> Some []"
  shows "(success (on_exit exit_code exit_signal) \<longleftrightarrow> exit_code = Some 0 \<and> exit_signal = None) \<and>
         code (on_exit exit_code exit_signal) = (case exit_code of None \<Rightarrow> 0 | Some c \<Rightarrow> c) \<and>
         signal (on_exit exit_code exit_signal) = exit_signal \<and>
         status_promise (ExitEvent exit_code exit_signal # later)
           = Resolved (on_exit exit_code exit_signal)"
  using assms by (auto simp: on_exit_def split: option.splits)

theorem exit_status_fields_witness:
  "on_exit (Some 0) None = \<lparr>success = True, code = 0, signal = None\<rparr> \<and>
   on_exit (Some 3) None = \<lparr>success = False, code = 3, signal = None\<rparr> \<and>
   on_exit None (Some ''SIGKILL'') = \<lparr>success = False, code = 0, signal = Some ''SIGKILL''\<rparr>"
  using exit_status_fields [of "Some 0" None] exit_status_fields [of "Some 3" None]
    exit_status_fields [of None "Some ''SIGKILL''"]
  by (simp add: on_exit_def)

subsection \<open>Environment\<close>

text \<open>
  Claim C8. When the command has environment overrides, the environment passed to the
  host is present and agrees with the environment of the current process on every
  variable the overrides do not name, and with the overrides on every variable they name.
\<close>

theorem env_overrides_merge:
  assumes "opt_env (options c) = Some overrides"
  shows "\<exists>env. so_env (spawnOptions_of (process_env h) (options c)) = Some env \<and>
           (\<forall>k. k \<notin> dom overrides \<longrightarrow> env k = process_env h k) \<and>
           (\<forall>k v. overrides k = Some v \<longrightarrow> env k = Some v)"
  using assms by (auto simp: spawnOptions_of_def map_add_def split: option.splits)

theorem env_overrides_merge_witness:
  "\<exists>env. so_env (spawnOptions_of (process_env echo_host)
             (no_options\<lparr>opt_env := Some [''HOME'' \<mapsto> ''/tmp'', ''LANG'' \<mapsto> ''C'']\<rparr>)) = Some env \<and>
      env ''PATH'' = Some ''/usr/bin'' \<and> env ''HOME'' = Some ''/tmp'' \<and> env ''LANG'' = Some ''C''"
  using env_overrides_merge [of "new_Command ''env''
      (Some (no_options\<lparr>opt_env := Some [''HOME'' \<mapsto> ''/tmp'', ''LANG'' \<mapsto> ''C'']\<rparr>))"
      "[''HOME'' \<mapsto> ''/tmp'', ''LANG'' \<mapsto> ''C'']" echo_host]
  by (auto simp: new_Command_def echo_host_def dom_def)

subsection \<open>The accumulator without a stdout handle\<close>

text \<open>For the modes \<open>inherit\<close> and \<open>null\<close> and for an absent mode, the stdout slot is not the host's \<open>pipe\<close>.\<close>

lemma stdout_slot_not_pipe:
  assumes "opt_stdout opts \<in> {None, Some ''inherit'', Some ''null''}"
  shows "\<exists>a b c. stdio (spawnOptions_of penv opts) = [a, b, c] \<and> b \<noteq> ''pipe''"
  using assms by (auto simp: spawnOptions_of_def or_else_def)

text \<open>
  Claim C10. For a spawned process without a stdout handle (what the host gives for a
  stdout slot that is not a pipe), the accumulator \<open>output\<close> resolves, with the empty byte
  sequence.
\<close>

theorem output_without_stdout_handle:
  assumes "spawn h c = Inr p" and "sp_stdout p = None"
  shows "sp_output p = Resolved []"
  using assms by (auto simp: spawn_def Let_def output_promise_def split: sum.splits)

theorem output_without_stdout_handle_witness:
  "spawn echo_host (new_Command ''echo'' (Some (no_options\<lparr>opt_stdout := Some ''null''\<rparr>))) =
     Inr \<lparr>sp_stdin = None, sp_stdout = None, sp_stderr = None,
          status = Resolved \<lparr>success = True, code = 0, signal = None\<rparr>,
          sp_output = Resolved []\<rparr>"
  using output_without_stdout_handle [of echo_host
      "new_Command ''echo'' (Some (no_options\<lparr>opt_stdout := Some ''null''\<rparr>))"
      "\<lparr>sp_stdin = None, sp_stdout = None, sp_stderr = None,
          status = Resolved \<lparr>success = True, code = 0, signal = None\<rparr>,
          sp_output = Resolved []\<rparr>"]
  by (simp add: spawn_def echo_host_def new_Command_def no_options_def spawnOptions_of_def
      or_else_def output_promise_def on_exit_def)

end
